theory Spec2Isabelle
  imports Main "HOL-Library.AList" "HOL-Library.Sublist"
begin

section \<open>Python values\<close>

text \<open>
  The client of \<^verbatim>\<open>linear_sync.py\<close> moves JSON-shaped Python values around: what
  \<^verbatim>\<open>response.json()\<close> decodes and what is sent as \<^verbatim>\<open>variables\<close>. A float is a
  mantissa and a binary exponent, an infinity with its sign, or not-a-number; only its
  truth value is ever used. A dict is an association list read with \<open>map_of\<close> and written
  with \<open>AList.update\<close>, which replaces in place or appends, as a Python dict does.
\<close>

datatype pyfloat = Finite int int | Infinity bool | NotANumber

datatype json =
    JNull
  | JBool bool
  | JInt int
  | JFloat pyfloat
  | JStr string
  | JList "json list"
  | JObj "(string \<times> json) list"

text \<open>The pieces of an f-string: literal text and formatted values.\<close>

datatype part = Lit string | Fmt json

type_synonym message = "part list"

text \<open>
  The exceptions that can leave the client. \<open>HTTPError\<close> is what
  \<^verbatim>\<open>response.raise_for_status()\<close> raises, \<open>JSONDecodeError\<close> what \<^verbatim>\<open>response.json()\<close>
  raises, \<open>Exception\<close> the plain \<^verbatim>\<open>raise Exception(...)\<close> of the source with its message;
  \<open>RequestException\<close> stands for \<^verbatim>\<open>requests.post\<close> itself failing.
\<close>

datatype error =
    HTTPError
  | RequestException
  | JSONDecodeError
  | Exception message
  | KeyError string
  | TypeError
  | AttributeError

text \<open>Truth value of a Python value (\<^verbatim>\<open>if x:\<close>, \<^verbatim>\<open>not x\<close>, \<^verbatim>\<open>x or y\<close>).\<close>

fun truthy :: "json \<Rightarrow> bool" where
  "truthy JNull = False"
| "truthy (JBool b) = b"
| "truthy (JInt i) = (i \<noteq> 0)"
| "truthy (JFloat (Finite m e)) = (m \<noteq> 0)"
| "truthy (JFloat (Infinity s)) = True"
| "truthy (JFloat NotANumber) = True"
| "truthy (JStr s) = (s \<noteq> [])"
| "truthy (JList xs) = (xs \<noteq> [])"
| "truthy (JObj kvs) = (kvs \<noteq> [])"

text \<open>\<^verbatim>\<open>d[k]\<close> with a string key: a dict looks the key up, anything else is a TypeError.\<close>

fun getitem :: "json \<Rightarrow> string \<Rightarrow> error + json" where
  "getitem (JObj kvs) k = (case map_of kvs k of None \<Rightarrow> Inl (KeyError k) | Some v \<Rightarrow> Inr v)"
| "getitem v k = Inl TypeError"

text \<open>
  \<^verbatim>\<open>k in d\<close> with a string \<open>k\<close>: a key of a dict, an element of a list, a substring of a
  string; a TypeError on a value that is not a container.
\<close>

fun contains :: "json \<Rightarrow> string \<Rightarrow> error + bool" where
  "contains (JObj kvs) k = Inr (k \<in> set (map fst kvs))"
| "contains (JList xs) k = Inr (JStr k \<in> set xs)"
| "contains (JStr s) k = Inr (sublist k s)"
| "contains v k = Inl TypeError"

text \<open>\<^verbatim>\<open>d.get(k)\<close>: None for a missing key; only a dict has the method.\<close>

fun dict_get :: "json \<Rightarrow> string \<Rightarrow> error + json" where
  "dict_get (JObj kvs) k = (case map_of kvs k of None \<Rightarrow> Inr JNull | Some v \<Rightarrow> Inr v)"
| "dict_get v k = Inl AttributeError"

text \<open>
  \<^verbatim>\<open>for x in v\<close>: the elements of a list, the keys of a dict, the characters of a
  string; a TypeError otherwise.
\<close>

fun iterate :: "json \<Rightarrow> error + json list" where
  "iterate (JList xs) = Inr xs"
| "iterate (JObj kvs) = Inr (map JStr (remdups (map fst kvs)))"
| "iterate (JStr s) = Inr (map (\<lambda>c. JStr [c]) s)"
| "iterate v = Inl TypeError"

section \<open>The HTTP layer\<close>

text \<open>
  \<^verbatim>\<open>requests.post(url, headers=..., json=...)\<close> is a parameter of the model: a function
  from the request to either an exception or a response object. Of the response the client
  uses two methods. \<^verbatim>\<open>raise_for_status()\<close> is the status check of the HTTP library: it
  raises \<open>HTTPError\<close> for a client error (a status from 400 to 499) or a server error (from
  500 to 599) and returns for every other status. \<^verbatim>\<open>json()\<close> decodes the body or raises.
\<close>

record request =
  url :: string
  headers :: "(string \<times> string) list"
  json_arg :: json

record response =
  status_code :: nat
  json_body :: "json option"  \<comment> \<open>what \<^verbatim>\<open>json()\<close> returns; \<open>None\<close> when it raises\<close>

definition raise_for_status :: "response \<Rightarrow> bool" where
  "raise_for_status resp = (400 \<le> status_code resp \<and> status_code resp < 600)"

type_synonym transport = "request \<Rightarrow> error + response"

section \<open>The client\<close>

record LinearClient =
  api_key :: string
  endpoint :: string
  client_headers :: "(string \<times> string) list"

definition init :: "string \<Rightarrow> LinearClient" where
  "init key =
     \<lparr>api_key = key,
      endpoint = ''https://api.linear.app/graphql'',
      client_headers = [(''Authorization'', key), (''Content-Type'', ''application/json'')]\<rparr>"

text \<open>
  \<^verbatim>\<open>query\<close>: one POST, then the status check, the decoding and the \<^verbatim>\<open>errors\<close> test, in
  the source's order. \<open>query_request\<close> is the argument list of the call to
  \<^verbatim>\<open>requests.post\<close>, with \<^verbatim>\<open>variables or {}\<close> as the variables. The second component
  of the result is the list of requests handed to \<^verbatim>\<open>requests.post\<close>, in order.
\<close>

definition query_request ::
  "LinearClient \<Rightarrow> string \<Rightarrow> (string \<times> json) list option \<Rightarrow> request" where
  "query_request self q variables =
     \<lparr>url = endpoint self, headers = client_headers self,
      json_arg = JObj [(''query'', JStr q),
                       (''variables'', JObj (case variables of
                                              None \<Rightarrow> []
                                            | Some vs \<Rightarrow> vs))]\<rparr>"

definition query ::
  "transport \<Rightarrow> LinearClient \<Rightarrow> string \<Rightarrow> (string \<times> json) list option
    \<Rightarrow> (error + json) \<times> request list" where
  "query post self q variables =
     (let req = query_request self q variables
      in case post req of
           Inl e \<Rightarrow> (Inl e, [req])
         | Inr resp \<Rightarrow>
             (if raise_for_status resp then (Inl HTTPError, [req])
              else case json_body resp of
                None \<Rightarrow> (Inl JSONDecodeError, [req])
              | Some data \<Rightarrow>
                  (case contains data ''errors'' of
                     Inl e \<Rightarrow> (Inl e, [req])
                   | Inr True \<Rightarrow>
                       (case getitem data ''errors'' of
                          Inl e \<Rightarrow> (Inl e, [req])
                        | Inr errs \<Rightarrow>
                            (Inl (Exception [Lit ''GraphQL Error: '', Fmt errs]), [req]))
                   | Inr False \<Rightarrow> (dict_get data ''data'', [req]))))"

text \<open>Sequencing: an exception in the first computation skips the rest.\<close>

definition and_then :: "error + 'a \<Rightarrow> ('a \<Rightarrow> error + 'b) \<Rightarrow> error + 'b" where
  "and_then r f = (case r of Inl e \<Rightarrow> Inl e | Inr x \<Rightarrow> f x)"

text \<open>An \<^verbatim>\<open>Optional[str]\<close> argument as a Python value.\<close>

definition opt_str :: "string option \<Rightarrow> json" where
  "opt_str s = (case s of None \<Rightarrow> JNull | Some x \<Rightarrow> JStr x)"

subsection \<open>The GraphQL documents\<close>

definition get_teams_query :: string where
  "get_teams_query =
     ''\<newline>'' @
     ''        query {\<newline>'' @
     ''            teams {\<newline>'' @
     ''                nodes {\<newline>'' @
     ''                    id\<newline>'' @
     ''                    name\<newline>'' @
     ''                    key\<newline>'' @
     ''                }\<newline>'' @
     ''            }\<newline>'' @
     ''        }\<newline>'' @
     ''        ''"

definition get_projects_query :: string where
  "get_projects_query =
     ''\<newline>'' @
     ''        query GetProjects($teamId: String!) {\<newline>'' @
     ''            team(id: $teamId) {\<newline>'' @
     ''                projects {\<newline>'' @
     ''                    nodes {\<newline>'' @
     ''                        id\<newline>'' @
     ''                        name\<newline>'' @
     ''                        description\<newline>'' @
     ''                        state\<newline>'' @
     ''                    }\<newline>'' @
     ''                }\<newline>'' @
     ''            }\<newline>'' @
     ''        }\<newline>'' @
     ''        ''"

definition get_workflow_states_query :: string where
  "get_workflow_states_query =
     ''\<newline>'' @
     ''        query GetStates($teamId: String!) {\<newline>'' @
     ''            team(id: $teamId) {\<newline>'' @
     ''                states {\<newline>'' @
     ''                    nodes {\<newline>'' @
     ''                        id\<newline>'' @
     ''                        name\<newline>'' @
     ''                        type\<newline>'' @
     ''                        color\<newline>'' @
     ''                    }\<newline>'' @
     ''                }\<newline>'' @
     ''            }\<newline>'' @
     ''        }\<newline>'' @
     ''        ''"

definition create_issue_mutation :: string where
  "create_issue_mutation =
     ''\<newline>'' @
     ''        mutation CreateIssue(\<newline>'' @
     ''            $teamId: String!\<newline>'' @
     ''            $title: String!\<newline>'' @
     ''            $description: String\<newline>'' @
     ''            $priority: Int\<newline>'' @
     ''            $projectId: String\<newline>'' @
     ''            $stateId: String\<newline>'' @
     ''            $labelIds: [String!]\<newline>'' @
     ''        ) {\<newline>'' @
     ''            issueCreate(\<newline>'' @
     ''                input: {\<newline>'' @
     ''                    teamId: $teamId\<newline>'' @
     ''                    title: $title\<newline>'' @
     ''                    description: $description\<newline>'' @
     ''                    priority: $priority\<newline>'' @
     ''                    projectId: $projectId\<newline>'' @
     ''                    stateId: $stateId\<newline>'' @
     ''                    labelIds: $labelIds\<newline>'' @
     ''                }\<newline>'' @
     ''            ) {\<newline>'' @
     ''                success\<newline>'' @
     ''                issue {\<newline>'' @
     ''                    id\<newline>'' @
     ''                    identifier\<newline>'' @
     ''                    title\<newline>'' @
     ''                    description\<newline>'' @
     ''                    priority\<newline>'' @
     ''                    url\<newline>'' @
     ''                    state {\<newline>'' @
     ''                        name\<newline>'' @
     ''                    }\<newline>'' @
     ''                }\<newline>'' @
     ''            }\<newline>'' @
     ''        }\<newline>'' @
     ''        ''"

definition update_issue_mutation :: string where
  "update_issue_mutation =
     ''\<newline>'' @
     ''        mutation UpdateIssue(\<newline>'' @
     ''            $issueId: String!\<newline>'' @
     ''            $stateId: String\<newline>'' @
     ''            $title: String\<newline>'' @
     ''            $description: String\<newline>'' @
     ''        ) {\<newline>'' @
     ''            issueUpdate(\<newline>'' @
     ''                id: $issueId\<newline>'' @
     ''                input: {\<newline>'' @
     ''                    stateId: $stateId\<newline>'' @
     ''                    title: $title\<newline>'' @
     ''                    description: $description\<newline>'' @
     ''                }\<newline>'' @
     ''            ) {\<newline>'' @
     ''                success\<newline>'' @
     ''                issue {\<newline>'' @
     ''                    id\<newline>'' @
     ''                    identifier\<newline>'' @
     ''                    title\<newline>'' @
     ''                    state {\<newline>'' @
     ''                        name\<newline>'' @
     ''                    }\<newline>'' @
     ''                    url\<newline>'' @
     ''                }\<newline>'' @
     ''            }\<newline>'' @
     ''        }\<newline>'' @
     ''        ''"

definition get_issue_query :: string where
  "get_issue_query =
     ''\<newline>'' @
     ''        query GetIssue($identifier: String!) {\<newline>'' @
     ''            issue(identifier: $identifier) {\<newline>'' @
     ''                id\<newline>'' @
     ''                identifier\<newline>'' @
     ''                title\<newline>'' @
     ''                description\<newline>'' @
     ''                priority\<newline>'' @
     ''                state {\<newline>'' @
     ''                    id\<newline>'' @
     ''                    name\<newline>'' @
     ''                }\<newline>'' @
     ''                url\<newline>'' @
     ''                labels {\<newline>'' @
     ''                    nodes {\<newline>'' @
     ''                        name\<newline>'' @
     ''                    }\<newline>'' @
     ''                }\<newline>'' @
     ''            }\<newline>'' @
     ''        }\<newline>'' @
     ''        ''"

definition search_issues_query_str :: string where
  "search_issues_query_str =
     ''\<newline>'' @
     ''        query SearchIssues($teamId: String!, $query: String!) {\<newline>'' @
     ''            team(id: $teamId) {\<newline>'' @
     ''                issues(filter: {query: $query}) {\<newline>'' @
     ''                    nodes {\<newline>'' @
     ''                        id\<newline>'' @
     ''                        identifier\<newline>'' @
     ''                        title\<newline>'' @
     ''                        state {\<newline>'' @
     ''                            name\<newline>'' @
     ''                        }\<newline>'' @
     ''                        priority\<newline>'' @
     ''                        url\<newline>'' @
     ''                    }\<newline>'' @
     ''                }\<newline>'' @
     ''            }\<newline>'' @
     ''        }\<newline>'' @
     ''        ''"

subsection \<open>The operations\<close>

definition get_teams :: "transport \<Rightarrow> LinearClient \<Rightarrow> (error + json) \<times> request list" where
  "get_teams post self =
     (case query post self get_teams_query None of
        (r, reqs) \<Rightarrow>
          (and_then r (\<lambda>data.
           and_then (getitem data ''teams'') (\<lambda>teams.
           getitem teams ''nodes'')), reqs))"

definition get_projects ::
  "transport \<Rightarrow> LinearClient \<Rightarrow> string \<Rightarrow> (error + json) \<times> request list" where
  "get_projects post self team_id =
     (case query post self get_projects_query (Some [(''teamId'', JStr team_id)]) of
        (r, reqs) \<Rightarrow>
          (and_then r (\<lambda>data.
           and_then (getitem data ''team'') (\<lambda>team.
           and_then (getitem team ''projects'') (\<lambda>projects.
           getitem projects ''nodes''))), reqs))"

definition get_workflow_states ::
  "transport \<Rightarrow> LinearClient \<Rightarrow> string \<Rightarrow> (error + json) \<times> request list" where
  "get_workflow_states post self team_id =
     (case query post self get_workflow_states_query (Some [(''teamId'', JStr team_id)]) of
        (r, reqs) \<Rightarrow>
          (and_then r (\<lambda>data.
           and_then (getitem data ''team'') (\<lambda>team.
           and_then (getitem team ''states'') (\<lambda>states.
           getitem states ''nodes''))), reqs))"

text \<open>
  \<^verbatim>\<open>create_issue(team_id, title, description="", priority=0, project_id=None,
  state_id=None, labels=None)\<close>. \<open>create_issue_variables\<close> is the \<^verbatim>\<open>variables\<close> dict as the
  method builds it: the literal with its four entries, then the two guarded assignments.
  \<open>labels_input\<close> is built as in the source and, as in the source, used nowhere.
\<close>

definition create_issue_variables ::
  "string \<Rightarrow> string \<Rightarrow> string \<Rightarrow> int \<Rightarrow> string option \<Rightarrow> string option
    \<Rightarrow> (string \<times> json) list" where
  "create_issue_variables team_id title description priority project_id state_id =
     (let variables = [(''teamId'', JStr team_id),
                       (''title'', JStr title),
                       (''description'', JStr description),
                       (''priority'', JInt priority)];
          variables = (if truthy (opt_str project_id)
                       then AList.update ''projectId'' (opt_str project_id) variables
                       else variables);
          variables = (if truthy (opt_str state_id)
                       then AList.update ''stateId'' (opt_str state_id) variables
                       else variables)
      in variables)"

definition create_issue ::
  "transport \<Rightarrow> LinearClient \<Rightarrow> string \<Rightarrow> string \<Rightarrow> string \<Rightarrow> int \<Rightarrow> string option
    \<Rightarrow> string option \<Rightarrow> string list option \<Rightarrow> (error + json) \<times> request list" where
  "create_issue post self team_id title description priority project_id state_id labels =
     (let labels_input = (case labels of
                            None \<Rightarrow> []
                          | Some names \<Rightarrow>
                              if names \<noteq> []
                              then map (\<lambda>name. JObj [(''name'', JStr name)]) names
                              else []);
          variables =
            create_issue_variables team_id title description priority project_id state_id
      in case query post self create_issue_mutation (Some variables) of
           (r, reqs) \<Rightarrow>
             (and_then r (\<lambda>data.
              and_then (getitem data ''issueCreate'') (\<lambda>payload.
              and_then (getitem payload ''success'') (\<lambda>success.
              if \<not> truthy success then Inl (Exception [Lit ''Failed to create issue''])
              else and_then (getitem data ''issueCreate'') (\<lambda>payload'.
                   getitem payload' ''issue'')))), reqs))"

text \<open>
  \<^verbatim>\<open>update_issue(issue_id, state_id=None, title=None, description=None)\<close>, with
  \<open>update_issue_variables\<close> the \<^verbatim>\<open>variables\<close> dict as the method builds it.
\<close>

definition update_issue_variables ::
  "string \<Rightarrow> string option \<Rightarrow> string option \<Rightarrow> string option \<Rightarrow> (string \<times> json) list" where
  "update_issue_variables issue_id state_id title description =
     (let variables = [(''issueId'', JStr issue_id)];
          variables = (if truthy (opt_str state_id)
                       then AList.update ''stateId'' (opt_str state_id) variables
                       else variables);
          variables = (if truthy (opt_str title)
                       then AList.update ''title'' (opt_str title) variables
                       else variables);
          variables = (if truthy (opt_str description)
                       then AList.update ''description'' (opt_str description) variables
                       else variables)
      in variables)"

definition update_issue ::
  "transport \<Rightarrow> LinearClient \<Rightarrow> string \<Rightarrow> string option \<Rightarrow> string option \<Rightarrow> string option
    \<Rightarrow> (error + json) \<times> request list" where
  "update_issue post self issue_id state_id title description =
     (let variables = update_issue_variables issue_id state_id title description
      in case query post self update_issue_mutation (Some variables) of
           (r, reqs) \<Rightarrow>
             (and_then r (\<lambda>data.
              and_then (getitem data ''issueUpdate'') (\<lambda>payload.
              and_then (getitem payload ''success'') (\<lambda>success.
              if \<not> truthy success then Inl (Exception [Lit ''Failed to update issue''])
              else and_then (getitem data ''issueUpdate'') (\<lambda>payload'.
                   getitem payload' ''issue'')))), reqs))"

definition get_issue ::
  "transport \<Rightarrow> LinearClient \<Rightarrow> string \<Rightarrow> (error + json) \<times> request list" where
  "get_issue post self identifier =
     (case query post self get_issue_query (Some [(''identifier'', JStr identifier)]) of
        (r, reqs) \<Rightarrow> (and_then r (\<lambda>data. getitem data ''issue''), reqs))"

text \<open>\<^verbatim>\<open>search_issues(team_id, query="")\<close>.\<close>

definition search_issues ::
  "transport \<Rightarrow> LinearClient \<Rightarrow> string \<Rightarrow> string \<Rightarrow> (error + json) \<times> request list" where
  "search_issues post self team_id q =
     (case query post self search_issues_query_str
             (Some [(''teamId'', JStr team_id), (''query'', JStr q)]) of
        (r, reqs) \<Rightarrow>
          (and_then r (\<lambda>data.
           and_then (getitem data ''team'') (\<lambda>team.
           and_then (getitem team ''issues'') (\<lambda>issues.
           getitem issues ''nodes''))), reqs))"

section \<open>The command line\<close>

text \<open>
  \<^verbatim>\<open>main()\<close> reads \<^verbatim>\<open>sys.argv\<close> and \<^verbatim>\<open>os.environ\<close>. What it does is the list of its
  events in order (a line printed, the client constructed, a request posted) and how it
  ends: it returns, it leaves through \<^verbatim>\<open>sys.exit(n)\<close>, or an exception escapes.
\<close>

datatype event = Print message | Construct LinearClient | Post request

datatype outcome = Returned | SystemExit int | Uncaught error

text \<open>The bodies of the two \<^verbatim>\<open>for\<close> loops: a line per element, until one raises.\<close>

fun print_teams :: "json list \<Rightarrow> outcome \<times> event list" where
  "print_teams [] = (Returned, [])"
| "print_teams (team # rest) =
     (case getitem team ''name'' of
        Inl e \<Rightarrow> (Uncaught e, [])
      | Inr name \<Rightarrow>
          (case getitem team ''id'' of
             Inl e \<Rightarrow> (Uncaught e, [])
           | Inr ident \<Rightarrow>
               (case getitem team ''key'' of
                  Inl e \<Rightarrow> (Uncaught e, [])
                | Inr key \<Rightarrow>
                    (case print_teams rest of
                       (r, evs) \<Rightarrow>
                         (r, Print [Lit ''  '', Fmt name, Lit '' ('', Fmt ident,
                                    Lit '') - Key: '', Fmt key] # evs)))))"

fun print_projects :: "json list \<Rightarrow> outcome \<times> event list" where
  "print_projects [] = (Returned, [])"
| "print_projects (project # rest) =
     (case getitem project ''name'' of
        Inl e \<Rightarrow> (Uncaught e, [])
      | Inr name \<Rightarrow>
          (case getitem project ''id'' of
             Inl e \<Rightarrow> (Uncaught e, [])
           | Inr ident \<Rightarrow>
               (case print_projects rest of
                  (r, evs) \<Rightarrow>
                    (r, Print [Lit ''  '', Fmt name, Lit '' ('', Fmt ident, Lit '')''] # evs))))"

definition main ::
  "transport \<Rightarrow> (string \<rightharpoonup> string) \<Rightarrow> string list \<Rightarrow> outcome \<times> event list" where
  "main post environ argv =
     (if length argv < 2 then
        (SystemExit 1,
         [Print [Lit ''Usage: python linear_sync.py <command> [args]''],
          Print [Lit ''Commands:''],
          Print [Lit ''  teams - List all teams''],
          Print [Lit ''  projects <team_id> - List projects''],
          Print [Lit ''  create <team_id> <title> - Create issue'']])
      else
        (case environ ''LINEAR_API_KEY'' of
           None \<Rightarrow>
             (SystemExit 1,
              [Print [Lit ''Error: LINEAR_API_KEY environment variable not set'']])
         | Some key \<Rightarrow>
             if \<not> truthy (JStr key) then
               (SystemExit 1, [Print [Lit ''Error: LINEAR_API_KEY environment variable not set'']])
             else
             (let client = init key;
                  command = argv ! 1
              in if command = ''teams'' then
                   (case get_teams post client of
                      (Inl e, reqs) \<Rightarrow> (Uncaught e, Construct client # map Post reqs)
                    | (Inr teams, reqs) \<Rightarrow>
                        (case iterate teams of
                           Inl e \<Rightarrow>
                             (Uncaught e,
                              Construct client # map Post reqs @ [Print [Lit ''Teams:'']])
                         | Inr ts \<Rightarrow>
                             (case print_teams ts of
                                (r, evs) \<Rightarrow>
                                  (r, Construct client # map Post reqs
                                        @ Print [Lit ''Teams:''] # evs))))
                 else if command = ''projects'' then
                   (if length argv < 3 then
                      (SystemExit 1,
                       [Construct client, Print [Lit ''Usage: python linear_sync.py projects <team_id>'']])
                    else
                      (case get_projects post client (argv ! 2) of
                         (Inl e, reqs) \<Rightarrow> (Uncaught e, Construct client # map Post reqs)
                       | (Inr projects, reqs) \<Rightarrow>
                           (case iterate projects of
                              Inl e \<Rightarrow>
                                (Uncaught e,
                                 Construct client # map Post reqs @ [Print [Lit ''Projects:'']])
                            | Inr ps \<Rightarrow>
                                (case print_projects ps of
                                   (r, evs) \<Rightarrow>
                                     (r, Construct client # map Post reqs
                                           @ Print [Lit ''Projects:''] # evs)))))
                 else if command = ''create'' then
                   (if length argv < 4 then
                      (SystemExit 1,
                       [Construct client,
                        Print [Lit ''Usage: python linear_sync.py create <team_id> <title>'']])
                    else
                      (case create_issue post client (argv ! 2) (argv ! 3) ''Created via API'' 0
                              None None None of
                         (Inl e, reqs) \<Rightarrow> (Uncaught e, Construct client # map Post reqs)
                       | (Inr issue, reqs) \<Rightarrow>
                           (case getitem issue ''identifier'' of
                              Inl e \<Rightarrow> (Uncaught e, Construct client # map Post reqs)
                            | Inr identifier \<Rightarrow>
                                (case getitem issue ''url'' of
                                   Inl e \<Rightarrow>
                                     (Uncaught e,
                                      Construct client # map Post reqs
                                        @ [Print [Lit ''Created issue: '', Fmt identifier]])
                                 | Inr u \<Rightarrow>
                                     (Returned,
                                      Construct client # map Post reqs
                                        @ [Print [Lit ''Created issue: '', Fmt identifier],
                                           Print [Lit ''URL: '', Fmt u]])))))
                 else
                   (SystemExit 1,
                    [Construct client, Print [Lit ''Unknown command: '', Lit command]]))))"

section \<open>Reading a run\<close>

text \<open>
  What the properties below read off a call: the \<^verbatim>\<open>variables\<close> object of a posted request,
  and whether a printed line is a usage line (the three usage lines of \<^verbatim>\<open>main\<close> all start
  with \<^verbatim>\<open>Usage:\<close>). Two transports serve as test doubles: \<open>stub resp\<close> answers every
  request with \<open>resp\<close>, and \<open>unreachable\<close> fails every request in \<^verbatim>\<open>requests.post\<close>.
\<close>

definition request_variables :: "request \<Rightarrow> (string \<times> json) list" where
  "request_variables req =
     (case json_arg req of
        JObj kvs \<Rightarrow> (case map_of kvs ''variables'' of Some (JObj vs) \<Rightarrow> vs | _ \<Rightarrow> [])
      | _ \<Rightarrow> [])"

fun is_usage :: "event \<Rightarrow> bool" where
  "is_usage (Print (Lit s # rest)) = prefix ''Usage:'' s"
| "is_usage ev = False"

definition stub :: "response \<Rightarrow> transport" where
  "stub resp req = Inr resp"

definition unreachable :: transport where
  "unreachable req = Inl RequestException"

section \<open>The execute primitive\<close>

lemma query_ok_body:
  assumes "post (query_request self q variables) = Inr resp"
    and "\<not> raise_for_status resp"
    and "json_body resp = Some (JObj kvs)"
  shows "query post self q variables =
           (case map_of kvs ''errors'' of
              Some errs \<Rightarrow> Inl (Exception [Lit ''GraphQL Error: '', Fmt errs])
            | None \<Rightarrow> Inr (case map_of kvs ''data'' of None \<Rightarrow> JNull | Some d \<Rightarrow> d),
            [query_request self q variables])"
proof (cases "map_of kvs ''errors''")
  case None
  then have "''errors'' \<notin> fst ` set kvs"
    by (simp add: map_of_eq_None_iff)
  with None assms show ?thesis
    by (simp add: query_def Let_def split: option.splits)
next
  case (Some errs)
  then have "''errors'' \<in> fst ` set kvs"
    by (metis map_of_eq_None_iff option.distinct(1))
  with Some assms show ?thesis
    by (simp add: query_def Let_def)
qed

text \<open>
  Claim C2. When the status check passes and the decoded body is an object whose
  \<^verbatim>\<open>errors\<close> entry is a non-empty list, \<^verbatim>\<open>query\<close> raises the exception whose message
  is \<^verbatim>\<open>GraphQL Error: \<close> followed by that list as it was decoded, whatever else the body
  holds (a \<^verbatim>\<open>data\<close> entry included); and when the object has no \<^verbatim>\<open>errors\<close> entry, no
  such exception is raised. One request is posted either way.
\<close>

theorem query_raises_graphql_errors:
  assumes "post (query_request self q variables) = Inr resp"
    and "\<not> raise_for_status resp"
    and "json_body resp = Some (JObj kvs)"
  shows "(map_of kvs ''errors'' = Some (JList errs) \<and> errs \<noteq> [] \<longrightarrow>
            query post self q variables =
              (Inl (Exception [Lit ''GraphQL Error: '', Fmt (JList errs)]),
               [query_request self q variables]))
       \<and> (map_of kvs ''errors'' = None \<longrightarrow>
            (\<forall>m. fst (query post self q variables) \<noteq> Inl (Exception m)))"
  using query_ok_body [of post self q variables resp kvs] assms by (simp split: option.splits)

theorem query_raises_graphql_errors_witness:
  "query (stub \<lparr>status_code = 200,
                 json_body = Some (JObj [(''errors'', JList [JObj [(''message'', JStr ''boom'')]]),
                                         (''data'', JObj [(''teams'', JNull)])])\<rparr>)
     (init ''key'') ''q'' None =
     (Inl (Exception [Lit ''GraphQL Error: '', Fmt (JList [JObj [(''message'', JStr ''boom'')]])]),
      [query_request (init ''key'') ''q'' None])
   \<and> (\<forall>m. fst (query (stub \<lparr>status_code = 200,
                               json_body = Some (JObj [(''data'', JObj [(''teams'', JNull)])])\<rparr>)
                   (init ''key'') ''q'' None) \<noteq> Inl (Exception m))"
  using query_raises_graphql_errors
      [where post = "stub \<lparr>status_code = 200,
                 json_body = Some (JObj [(''errors'', JList [JObj [(''message'', JStr ''boom'')]]),
                                         (''data'', JObj [(''teams'', JNull)])])\<rparr>"
        and self = "init ''key''" and q = "''q''" and variables = None
        and resp = "\<lparr>status_code = 200,
                 json_body = Some (JObj [(''errors'', JList [JObj [(''message'', JStr ''boom'')]]),
                                         (''data'', JObj [(''teams'', JNull)])])\<rparr>"
        and kvs = "[(''errors'', JList [JObj [(''message'', JStr ''boom'')]]),
                    (''data'', JObj [(''teams'', JNull)])]"
        and errs = "[JObj [(''message'', JStr ''boom'')]]"]
    query_raises_graphql_errors
      [where post = "stub \<lparr>status_code = 200,
                               json_body = Some (JObj [(''data'', JObj [(''teams'', JNull)])])\<rparr>"
        and self = "init ''key''" and q = "''q''" and variables = None
        and resp = "\<lparr>status_code = 200,
                      json_body = Some (JObj [(''data'', JObj [(''teams'', JNull)])])\<rparr>"
        and kvs = "[(''data'', JObj [(''teams'', JNull)])]"
        and errs = "[]"]
  by (simp add: stub_def raise_for_status_def)

text \<open>
  Claim C9. When the status check passes and the decoded body is an object without an
  \<^verbatim>\<open>errors\<close> entry, \<^verbatim>\<open>query\<close> returns the body's \<^verbatim>\<open>data\<close> entry, and None when the body
  has no \<^verbatim>\<open>data\<close> entry; it does not fail.
\<close>

theorem query_returns_data:
  assumes "post (query_request self q variables) = Inr resp"
    and "\<not> raise_for_status resp"
    and "json_body resp = Some (JObj kvs)"
    and "map_of kvs ''errors'' = None"
  shows "query post self q variables =
           (Inr (case map_of kvs ''data'' of None \<Rightarrow> JNull | Some d \<Rightarrow> d),
            [query_request self q variables])"
  using query_ok_body [of post self q variables resp kvs] assms by simp

theorem query_returns_data_witness:
  "query (stub \<lparr>status_code = 200,
                 json_body = Some (JObj [(''data'', JObj [(''teams'', JNull)])])\<rparr>)
     (init ''key'') ''q'' None =
     (Inr (JObj [(''teams'', JNull)]), [query_request (init ''key'') ''q'' None])
   \<and> query (stub \<lparr>status_code = 200, json_body = Some (JObj [])\<rparr>)
       (init ''key'') ''q'' None =
       (Inr JNull, [query_request (init ''key'') ''q'' None])"
  using query_returns_data
      [where post = "stub \<lparr>status_code = 200,
                               json_body = Some (JObj [(''data'', JObj [(''teams'', JNull)])])\<rparr>"
        and self = "init ''key''" and q = "''q''" and variables = None
        and resp = "\<lparr>status_code = 200,
                      json_body = Some (JObj [(''data'', JObj [(''teams'', JNull)])])\<rparr>"
        and kvs = "[(''data'', JObj [(''teams'', JNull)])]"]
    query_returns_data
      [where post = "stub \<lparr>status_code = 200, json_body = Some (JObj [])\<rparr>"
        and self = "init ''key''" and q = "''q''" and variables = None
        and resp = "\<lparr>status_code = 200, json_body = Some (JObj [])\<rparr>"
        and kvs = "[]"]
  by (simp add: stub_def raise_for_status_def)

lemma query_http_error:
  assumes "post (query_request self q variables) = Inr resp" "raise_for_status resp"
  shows "query post self q variables = (Inl HTTPError, [query_request self q variables])"
  using assms by (simp add: query_def Let_def)

lemma query_fails_everywhere:
  assumes "\<forall>req. \<exists>resp. post req = Inr resp \<and> raise_for_status resp"
  shows "query post self q variables = (Inl HTTPError, [query_request self q variables])"
proof -
  from assms obtain resp where
    "post (query_request self q variables) = Inr resp" and "raise_for_status resp"
    by blast
  then show ?thesis by (rule query_http_error)
qed

text \<open>
  Claim C5, as amended. When the HTTP layer reports a client or server error for whatever
  is posted (a status from 400 to 599, the statuses on which the status check raises),
  each of the seven operations raises the transport error, has posted exactly one
  request, and returns nothing, whatever the body of the response holds.
\<close>

theorem transport_failure_raises:
  assumes "\<forall>req. \<exists>resp. post req = Inr resp \<and> 400 \<le> status_code resp \<and> status_code resp < 600"
  shows "get_teams post self = (Inl HTTPError, [query_request self get_teams_query None])
       \<and> get_projects post self team_id =
           (Inl HTTPError, [query_request self get_projects_query (Some [(''teamId'', JStr team_id)])])
       \<and> get_workflow_states post self team_id =
           (Inl HTTPError,
            [query_request self get_workflow_states_query (Some [(''teamId'', JStr team_id)])])
       \<and> create_issue post self team_id title description priority project_id state_id labels =
           (Inl HTTPError,
            [query_request self create_issue_mutation
               (Some (create_issue_variables team_id title description priority project_id state_id))])
       \<and> update_issue post self issue_id state_id' title' description' =
           (Inl HTTPError,
            [query_request self update_issue_mutation
               (Some (update_issue_variables issue_id state_id' title' description'))])
       \<and> get_issue post self ident =
           (Inl HTTPError, [query_request self get_issue_query (Some [(''identifier'', JStr ident)])])
       \<and> search_issues post self team_id q =
           (Inl HTTPError,
            [query_request self search_issues_query_str
               (Some [(''teamId'', JStr team_id), (''query'', JStr q)])])"
proof -
  from assms have fails: "\<forall>req. \<exists>resp. post req = Inr resp \<and> raise_for_status resp"
    by (simp add: raise_for_status_def)
  show ?thesis
    by (simp add: query_fails_everywhere [OF fails] get_teams_def get_projects_def
        get_workflow_states_def create_issue_def update_issue_def get_issue_def
        search_issues_def and_then_def Let_def)
qed

theorem transport_failure_raises_witness:
  "get_teams (stub \<lparr>status_code = 500, json_body = Some (JObj [(''data'', JNull)])\<rparr>)
     (init ''key'') =
     (Inl HTTPError, [query_request (init ''key'') get_teams_query None])
   \<and> create_issue (stub \<lparr>status_code = 404, json_body = Some (JObj [(''data'', JNull)])\<rparr>)
       (init ''key'') ''T1'' ''Fix bug'' [] 0 None None None =
       (Inl HTTPError,
        [query_request (init ''key'') create_issue_mutation
           (Some (create_issue_variables ''T1'' ''Fix bug'' [] 0 None None))])"
  using transport_failure_raises
      [where post = "stub \<lparr>status_code = 500, json_body = Some (JObj [(''data'', JNull)])\<rparr>"
        and self = "init ''key''" and team_id = "''T1''" and title = "''Fix bug''"
        and description = "[]" and priority = 0 and project_id = None and state_id = None
        and labels = None and issue_id = "''I1''" and state_id' = None and title' = None
        and description' = None and ident = "''ENG-1''" and q = "[]"]
    transport_failure_raises
      [where post = "stub \<lparr>status_code = 404, json_body = Some (JObj [(''data'', JNull)])\<rparr>"
        and self = "init ''key''" and team_id = "''T1''" and title = "''Fix bug''"
        and description = "[]" and priority = 0 and project_id = None and state_id = None
        and labels = None and issue_id = "''I1''" and state_id' = None and title' = None
        and description' = None and ident = "''ENG-1''" and q = "[]"]
  by (simp add: stub_def)

text \<open>
  The claim as first stated, for every status outside 200 to 299, fails at the status
  304: the status check does not raise, the body is decoded, and \<^verbatim>\<open>get_teams\<close> returns
  the parsed result.
\<close>

theorem not_modified_status_returns_result:
  "get_teams
     (stub \<lparr>status_code = 304,
            json_body = Some (JObj [(''data'',
              JObj [(''teams'', JObj [(''nodes'', JList [JObj [(''id'', JStr ''t1'')]])])])])\<rparr>)
     (init ''key'') =
     (Inr (JList [JObj [(''id'', JStr ''t1'')]]), [query_request (init ''key'') get_teams_query None])"
  by (simp add: get_teams_def query_def stub_def raise_for_status_def and_then_def Let_def)

section \<open>The variables that are sent\<close>

lemma request_variables_query_request:
  "request_variables (query_request self q variables) =
     (case variables of None \<Rightarrow> [] | Some vs \<Rightarrow> vs)"
  by (simp add: request_variables_def query_request_def)

lemma query_sends_once: "snd (query post self q variables) = [query_request self q variables]"
  by (simp add: query_def Let_def split: sum.splits option.splits bool.splits)

lemma get_teams_sends: "snd (get_teams post self) = [query_request self get_teams_query None]"
  using query_sends_once [of post self get_teams_query None]
  by (auto simp add: get_teams_def split: prod.splits)

lemma get_projects_sends:
  "snd (get_projects post self team_id) =
     [query_request self get_projects_query (Some [(''teamId'', JStr team_id)])]"
  using query_sends_once [of post self get_projects_query "Some [(''teamId'', JStr team_id)]"]
  by (auto simp add: get_projects_def split: prod.splits)

lemma get_workflow_states_sends:
  "snd (get_workflow_states post self team_id) =
     [query_request self get_workflow_states_query (Some [(''teamId'', JStr team_id)])]"
  using query_sends_once [of post self get_workflow_states_query "Some [(''teamId'', JStr team_id)]"]
  by (auto simp add: get_workflow_states_def split: prod.splits)

lemma create_issue_sends:
  "snd (create_issue post self team_id title description priority project_id state_id labels) =
     [query_request self create_issue_mutation
        (Some (create_issue_variables team_id title description priority project_id state_id))]"
  using query_sends_once [of post self create_issue_mutation
      "Some (create_issue_variables team_id title description priority project_id state_id)"]
  by (auto simp add: create_issue_def Let_def split: prod.splits)

lemma update_issue_sends:
  "snd (update_issue post self issue_id state_id title description) =
     [query_request self update_issue_mutation
        (Some (update_issue_variables issue_id state_id title description))]"
  using query_sends_once [of post self update_issue_mutation
      "Some (update_issue_variables issue_id state_id title description)"]
  by (auto simp add: update_issue_def Let_def split: prod.splits)

lemma get_issue_sends:
  "snd (get_issue post self identifier) =
     [query_request self get_issue_query (Some [(''identifier'', JStr identifier)])]"
  using query_sends_once [of post self get_issue_query "Some [(''identifier'', JStr identifier)]"]
  by (auto simp add: get_issue_def split: prod.splits)

lemma search_issues_sends:
  "snd (search_issues post self team_id q) =
     [query_request self search_issues_query_str
        (Some [(''teamId'', JStr team_id), (''query'', JStr q)])]"
  using query_sends_once [of post self search_issues_query_str
      "Some [(''teamId'', JStr team_id), (''query'', JStr q)]"]
  by (auto simp add: search_issues_def split: prod.splits)

lemma create_issue_defaults_sent:
  "map request_variables
     (snd (create_issue unreachable (init ''key'') ''T1'' ''Fix bug'' [] 0 None None None)) =
     [[(''teamId'', JStr ''T1''), (''title'', JStr ''Fix bug''),
       (''description'', JStr []), (''priority'', JInt 0)]]"
  by (simp add: create_issue_sends request_variables_query_request
        create_issue_variables_def opt_str_def)

text \<open>
  Claim C1, as amended. Called with only its required inputs, each operation posts one
  request whose variables hold no null and no entry for an optional input whose default
  is None: \<^verbatim>\<open>update_issue\<close> sends exactly \<^verbatim>\<open>issueId\<close>, and \<^verbatim>\<open>create_issue\<close> sends neither
  \<^verbatim>\<open>projectId\<close>, \<^verbatim>\<open>stateId\<close> nor \<^verbatim>\<open>labelIds\<close>. An optional input with a default other than
  None is sent with that default: \<^verbatim>\<open>create_issue\<close> sends \<^verbatim>\<open>teamId\<close>, \<^verbatim>\<open>title\<close>, the empty
  \<^verbatim>\<open>description\<close> and \<^verbatim>\<open>priority\<close> 0, and \<^verbatim>\<open>search_issues\<close> sends \<^verbatim>\<open>teamId\<close> and the empty
  \<^verbatim>\<open>query\<close>.
\<close>

theorem required_inputs_variables:
  "map request_variables (snd (get_teams post self)) = [[]]
   \<and> map request_variables (snd (get_projects post self team_id)) = [[(''teamId'', JStr team_id)]]
   \<and> map request_variables (snd (get_workflow_states post self team_id)) =
       [[(''teamId'', JStr team_id)]]
   \<and> map request_variables (snd (create_issue post self team_id title [] 0 None None None)) =
       [[(''teamId'', JStr team_id), (''title'', JStr title),
         (''description'', JStr []), (''priority'', JInt 0)]]
   \<and> map request_variables (snd (update_issue post self issue_id None None None)) =
       [[(''issueId'', JStr issue_id)]]
   \<and> map request_variables (snd (get_issue post self ident)) =
       [[(''identifier'', JStr ident)]]
   \<and> map request_variables (snd (search_issues post self team_id [])) =
       [[(''teamId'', JStr team_id), (''query'', JStr [])]]"
  by (simp add: get_teams_sends get_projects_sends get_workflow_states_sends create_issue_sends
      update_issue_sends get_issue_sends search_issues_sends request_variables_query_request
      create_issue_variables_def update_issue_variables_def opt_str_def)

theorem required_inputs_variables_witness:
  "map request_variables (snd (get_teams unreachable (init ''key''))) = [[]]
   \<and> map request_variables
       (snd (create_issue unreachable (init ''key'') ''T1'' ''Fix bug'' [] 0 None None None)) =
       [[(''teamId'', JStr ''T1''), (''title'', JStr ''Fix bug''),
         (''description'', JStr []), (''priority'', JInt 0)]]
   \<and> map request_variables (snd (update_issue unreachable (init ''key'') ''I1'' None None None)) =
       [[(''issueId'', JStr ''I1'')]]
   \<and> map request_variables (snd (search_issues unreachable (init ''key'') ''T1'' [])) =
       [[(''teamId'', JStr ''T1''), (''query'', JStr [])]]"
  using required_inputs_variables
      [where post = unreachable and self = "init ''key''" and team_id = "''T1''"
        and title = "''Fix bug''" and issue_id = "''I1''" and ident = "''ENG-1''"]
  by simp

text \<open>
  The claim as first stated fails for \<^verbatim>\<open>create_issue("T1", "Fix bug")\<close>: the variables
  sent have four keys, \<^verbatim>\<open>description\<close> and \<^verbatim>\<open>priority\<close> among them.
\<close>

theorem create_issue_sends_defaults:
  "map request_variables
     (snd (create_issue unreachable (init ''key'') ''T1'' ''Fix bug'' [] 0 None None None)) =
     [[(''teamId'', JStr ''T1''), (''title'', JStr ''Fix bug''),
       (''description'', JStr []), (''priority'', JInt 0)]]
   \<and> \<not> fst ` set (concat (map request_variables
         (snd (create_issue unreachable (init ''key'') ''T1'' ''Fix bug'' [] 0 None None None))))
       \<subseteq> {''teamId'', ''title''}"
  by (simp add: create_issue_defaults_sent)

lemma create_issue_variables_keys:
  "''labelIds'' \<notin> fst ` set (create_issue_variables team_id title description priority
                                 project_id state_id)"
  by (auto simp add: create_issue_variables_def opt_str_def Let_def)

lemma create_issue_labels_unused:
  "create_issue post self team_id title description priority project_id state_id labels =
     create_issue post self team_id title description priority project_id state_id None"
  by (simp add: create_issue_def Let_def)

text \<open>
  Claim C3. Whatever label names \<^verbatim>\<open>create_issue\<close> is given, the one request it posts has
  no \<^verbatim>\<open>labelIds\<close> variable, and the call does exactly what it does without labels: the
  names are accepted, never resolved and never sent.
\<close>

theorem create_issue_ignores_labels:
  "map request_variables
     (snd (create_issue post self team_id title description priority project_id state_id labels)) =
     [create_issue_variables team_id title description priority project_id state_id]
   \<and> ''labelIds'' \<notin> fst ` set (create_issue_variables team_id title description priority
                                   project_id state_id)
   \<and> create_issue post self team_id title description priority project_id state_id labels =
     create_issue post self team_id title description priority project_id state_id None"
  using create_issue_variables_keys [of team_id title description priority project_id state_id]
    create_issue_labels_unused [of post self team_id title description priority project_id
      state_id labels]
  by (simp add: create_issue_sends request_variables_query_request)

theorem create_issue_ignores_labels_witness:
  "map request_variables
     (snd (create_issue unreachable (init ''key'') ''T1'' ''Fix bug'' ''text'' 2 (Some ''P1'')
             (Some ''S1'') (Some [''bug'', ''urgent'']))) =
     [create_issue_variables ''T1'' ''Fix bug'' ''text'' 2 (Some ''P1'') (Some ''S1'')]
   \<and> ''labelIds'' \<notin> fst ` set (create_issue_variables ''T1'' ''Fix bug'' ''text'' 2 (Some ''P1'')
                                   (Some ''S1''))
   \<and> create_issue unreachable (init ''key'') ''T1'' ''Fix bug'' ''text'' 2 (Some ''P1'')
       (Some ''S1'') (Some [''bug'', ''urgent'']) =
     create_issue unreachable (init ''key'') ''T1'' ''Fix bug'' ''text'' 2 (Some ''P1'')
       (Some ''S1'') None"
  by (rule create_issue_ignores_labels)

lemma update_issue_variables_empty:
  "update_issue_variables issue_id (Some []) title description =
     update_issue_variables issue_id None title description"
  "update_issue_variables issue_id state_id (Some []) description =
     update_issue_variables issue_id state_id None description"
  "update_issue_variables issue_id state_id title (Some []) =
     update_issue_variables issue_id state_id title None"
  by (simp_all add: update_issue_variables_def opt_str_def)

lemma create_issue_variables_empty:
  "create_issue_variables team_id title description priority (Some []) state_id =
     create_issue_variables team_id title description priority None state_id"
  "create_issue_variables team_id title description priority project_id (Some []) =
     create_issue_variables team_id title description priority project_id None"
  by (simp_all add: create_issue_variables_def opt_str_def)

lemma update_issue_variables_nonempty:
  "map_of (update_issue_variables issue_id state_id title description) ''stateId'' \<noteq> Some (JStr [])"
  "map_of (update_issue_variables issue_id state_id title description) ''title'' \<noteq> Some (JStr [])"
  "map_of (update_issue_variables issue_id state_id title description) ''description''
     \<noteq> Some (JStr [])"
  by (auto simp add: update_issue_variables_def Let_def update_conv' opt_str_def split: option.splits)

text \<open>
  Claim C10. An optional input is left out by its truth value, not by its presence: in
  \<^verbatim>\<open>update_issue\<close> an empty string for the state id, the title or the description does
  what leaving it out does, so none of the three is ever sent as an empty string; and
  likewise for the project id and the state id of \<^verbatim>\<open>create_issue\<close>.
\<close>

theorem empty_string_is_omitted:
  "update_issue post self issue_id (Some []) title description =
     update_issue post self issue_id None title description
   \<and> update_issue post self issue_id state_id (Some []) description =
     update_issue post self issue_id state_id None description
   \<and> update_issue post self issue_id state_id title (Some []) =
     update_issue post self issue_id state_id title None
   \<and> map_of (update_issue_variables issue_id state_id title description) ''stateId'' \<noteq> Some (JStr [])
   \<and> map_of (update_issue_variables issue_id state_id title description) ''title'' \<noteq> Some (JStr [])
   \<and> map_of (update_issue_variables issue_id state_id title description) ''description''
       \<noteq> Some (JStr [])
   \<and> create_issue post self team_id title' description' priority (Some []) state_id' labels =
     create_issue post self team_id title' description' priority None state_id' labels
   \<and> create_issue post self team_id title' description' priority project_id (Some []) labels =
     create_issue post self team_id title' description' priority project_id None labels"
  by (simp add: update_issue_def create_issue_def update_issue_variables_empty
      create_issue_variables_empty update_issue_variables_nonempty)

theorem empty_string_is_omitted_witness:
  "update_issue unreachable (init ''key'') ''I1'' (Some []) (Some ''New title'') None =
     update_issue unreachable (init ''key'') ''I1'' None (Some ''New title'') None
   \<and> map_of (update_issue_variables ''I1'' (Some []) (Some ''New title'') None) ''stateId''
       \<noteq> Some (JStr [])
   \<and> create_issue unreachable (init ''key'') ''T1'' ''Fix bug'' [] 0 (Some []) None None =
     create_issue unreachable (init ''key'') ''T1'' ''Fix bug'' [] 0 None None None"
  using empty_string_is_omitted
      [where post = unreachable and self = "init ''key''" and issue_id = "''I1''"
        and state_id = "Some []" and title = "Some ''New title''" and description = None
        and team_id = "''T1''" and title' = "''Fix bug''" and description' = "[]"
        and priority = 0 and project_id = None and state_id' = None and labels = None]
  by simp

section \<open>Mutations\<close>

lemma create_issue_payload:
  assumes "post (query_request self create_issue_mutation
             (Some (create_issue_variables team_id title description priority project_id state_id)))
           = Inr resp"
    and "\<not> raise_for_status resp"
    and "json_body resp = Some (JObj kvs)"
    and "map_of kvs ''errors'' = None"
    and "map_of kvs ''data'' = Some data"
    and "getitem data ''issueCreate'' = Inr payload"
    and "getitem payload ''success'' = Inr success"
  shows "create_issue post self team_id title description priority project_id state_id labels =
           (if \<not> truthy success then Inl (Exception [Lit ''Failed to create issue''])
            else getitem payload ''issue'',
            [query_request self create_issue_mutation
               (Some (create_issue_variables team_id title description priority project_id state_id))])"
  using query_ok_body [of post self create_issue_mutation
      "Some (create_issue_variables team_id title description priority project_id state_id)" resp kvs]
    assms
  by (simp add: create_issue_def and_then_def Let_def)

lemma update_issue_payload:
  assumes "post (query_request self update_issue_mutation
             (Some (update_issue_variables issue_id state_id title description)))
           = Inr resp"
    and "\<not> raise_for_status resp"
    and "json_body resp = Some (JObj kvs)"
    and "map_of kvs ''errors'' = None"
    and "map_of kvs ''data'' = Some data"
    and "getitem data ''issueUpdate'' = Inr payload"
    and "getitem payload ''success'' = Inr success"
  shows "update_issue post self issue_id state_id title description =
           (if \<not> truthy success then Inl (Exception [Lit ''Failed to update issue''])
            else getitem payload ''issue'',
            [query_request self update_issue_mutation
               (Some (update_issue_variables issue_id state_id title description))])"
  using query_ok_body [of post self update_issue_mutation
      "Some (update_issue_variables issue_id state_id title description)" resp kvs]
    assms
  by (simp add: update_issue_def and_then_def Let_def)

text \<open>
  Claim C4. When the round trip of a create or update succeeds (the status check passes,
  the body is an object without \<^verbatim>\<open>errors\<close>) and the mutation payload reports
  \<^verbatim>\<open>success\<close> false, the call raises the failure exception and returns no issue.
\<close>

theorem mutation_failure_raises:
  "(post (query_request self create_issue_mutation
       (Some (create_issue_variables team_id title description priority project_id state_id)))
      = Inr resp
    \<and> \<not> raise_for_status resp \<and> json_body resp = Some (JObj kvs)
    \<and> map_of kvs ''errors'' = None \<and> map_of kvs ''data'' = Some data
    \<and> getitem data ''issueCreate'' = Inr payload
    \<and> getitem payload ''success'' = Inr (JBool False)
    \<longrightarrow> create_issue post self team_id title description priority project_id state_id labels =
          (Inl (Exception [Lit ''Failed to create issue'']),
           [query_request self create_issue_mutation
              (Some (create_issue_variables team_id title description priority project_id
                       state_id))]))
   \<and> (post (query_request self update_issue_mutation
          (Some (update_issue_variables issue_id state_id' title' description')))
        = Inr resp'
      \<and> \<not> raise_for_status resp' \<and> json_body resp' = Some (JObj kvs')
      \<and> map_of kvs' ''errors'' = None \<and> map_of kvs' ''data'' = Some data'
      \<and> getitem data' ''issueUpdate'' = Inr payload'
      \<and> getitem payload' ''success'' = Inr (JBool False)
      \<longrightarrow> update_issue post self issue_id state_id' title' description' =
            (Inl (Exception [Lit ''Failed to update issue'']),
             [query_request self update_issue_mutation
                (Some (update_issue_variables issue_id state_id' title' description'))]))"
  using create_issue_payload [of post self team_id title description priority project_id state_id
      resp kvs data payload "JBool False" labels]
    update_issue_payload [of post self issue_id state_id' title' description' resp' kvs' data'
      payload' "JBool False"]
  by simp

theorem mutation_failure_raises_witness:
  "create_issue
     (stub \<lparr>status_code = 200,
            json_body = Some (JObj [(''data'',
              JObj [(''issueCreate'', JObj [(''success'', JBool False), (''issue'', JNull)]),
                    (''issueUpdate'', JObj [(''success'', JBool False), (''issue'', JNull)])])])\<rparr>)
     (init ''key'') ''T1'' ''Fix bug'' [] 0 None None None =
     (Inl (Exception [Lit ''Failed to create issue'']),
      [query_request (init ''key'') create_issue_mutation
         (Some (create_issue_variables ''T1'' ''Fix bug'' [] 0 None None))])
   \<and> update_issue
     (stub \<lparr>status_code = 200,
            json_body = Some (JObj [(''data'',
              JObj [(''issueCreate'', JObj [(''success'', JBool False), (''issue'', JNull)]),
                    (''issueUpdate'', JObj [(''success'', JBool False), (''issue'', JNull)])])])\<rparr>)
     (init ''key'') ''I1'' (Some ''S2'') None None =
     (Inl (Exception [Lit ''Failed to update issue'']),
      [query_request (init ''key'') update_issue_mutation
         (Some (update_issue_variables ''I1'' (Some ''S2'') None None))])"
  using mutation_failure_raises
      [where post = "stub \<lparr>status_code = 200,
            json_body = Some (JObj [(''data'',
              JObj [(''issueCreate'', JObj [(''success'', JBool False), (''issue'', JNull)]),
                    (''issueUpdate'', JObj [(''success'', JBool False), (''issue'', JNull)])])])\<rparr>"
        and self = "init ''key''" and team_id = "''T1''" and title = "''Fix bug''"
        and description = "[]" and priority = 0 and project_id = None and state_id = None
        and labels = None
        and resp = "\<lparr>status_code = 200,
            json_body = Some (JObj [(''data'',
              JObj [(''issueCreate'', JObj [(''success'', JBool False), (''issue'', JNull)]),
                    (''issueUpdate'', JObj [(''success'', JBool False), (''issue'', JNull)])])])\<rparr>"
        and kvs = "[(''data'',
              JObj [(''issueCreate'', JObj [(''success'', JBool False), (''issue'', JNull)]),
                    (''issueUpdate'', JObj [(''success'', JBool False), (''issue'', JNull)])])]"
        and data = "JObj [(''issueCreate'', JObj [(''success'', JBool False), (''issue'', JNull)]),
                    (''issueUpdate'', JObj [(''success'', JBool False), (''issue'', JNull)])]"
        and payload = "JObj [(''success'', JBool False), (''issue'', JNull)]"
        and issue_id = "''I1''" and state_id' = "Some ''S2''" and title' = None
        and description' = None
        and resp' = "\<lparr>status_code = 200,
            json_body = Some (JObj [(''data'',
              JObj [(''issueCreate'', JObj [(''success'', JBool False), (''issue'', JNull)]),
                    (''issueUpdate'', JObj [(''success'', JBool False), (''issue'', JNull)])])])\<rparr>"
        and kvs' = "[(''data'',
              JObj [(''issueCreate'', JObj [(''success'', JBool False), (''issue'', JNull)]),
                    (''issueUpdate'', JObj [(''success'', JBool False), (''issue'', JNull)])])]"
        and data' = "JObj [(''issueCreate'', JObj [(''success'', JBool False), (''issue'', JNull)]),
                    (''issueUpdate'', JObj [(''success'', JBool False), (''issue'', JNull)])]"
        and payload' = "JObj [(''success'', JBool False), (''issue'', JNull)]"]
  by (simp add: stub_def raise_for_status_def)

text \<open>
  Claim C6. Round trip: when the transport answers the request of
  \<^verbatim>\<open>create_issue("T1", "Fix bug")\<close> with a well-formed \<^verbatim>\<open>issueCreate\<close> payload whose
  \<^verbatim>\<open>success\<close> is true, the call returns the \<^verbatim>\<open>issue\<close> object of that payload as it is, and
  so its identifier, title and url.
\<close>

theorem create_issue_round_trip:
  assumes "post (query_request self create_issue_mutation
             (Some (create_issue_variables ''T1'' ''Fix bug'' [] 0 None None))) = Inr resp"
    and "\<not> raise_for_status resp"
    and "json_body resp = Some (JObj kvs)"
    and "map_of kvs ''errors'' = None"
    and "map_of kvs ''data'' = Some data"
    and "getitem data ''issueCreate'' = Inr payload"
    and "getitem payload ''success'' = Inr (JBool True)"
    and "getitem payload ''issue'' = Inr issue"
  shows "fst (create_issue post self ''T1'' ''Fix bug'' [] 0 None None None) = Inr issue"
  using create_issue_payload [of post self "''T1''" "''Fix bug''" "[]" 0 None None
      resp kvs data payload "JBool True" None] assms
  by simp

theorem create_issue_round_trip_witness:
  "fst (create_issue
     (stub \<lparr>status_code = 200,
            json_body = Some (JObj [(''data'',
              JObj [(''issueCreate'',
                JObj [(''success'', JBool True),
                      (''issue'', JObj [(''id'', JStr ''abc''),
                                        (''identifier'', JStr ''ENG-1''),
                                        (''title'', JStr ''Fix bug''),
                                        (''url'', JStr ''https://linear.app/ENG-1'')])])])])\<rparr>)
     (init ''key'') ''T1'' ''Fix bug'' [] 0 None None None) =
     Inr (JObj [(''id'', JStr ''abc''),
                (''identifier'', JStr ''ENG-1''),
                (''title'', JStr ''Fix bug''),
                (''url'', JStr ''https://linear.app/ENG-1'')])"
  using create_issue_round_trip
      [where post = "stub \<lparr>status_code = 200,
            json_body = Some (JObj [(''data'',
              JObj [(''issueCreate'',
                JObj [(''success'', JBool True),
                      (''issue'', JObj [(''id'', JStr ''abc''),
                                        (''identifier'', JStr ''ENG-1''),
                                        (''title'', JStr ''Fix bug''),
                                        (''url'', JStr ''https://linear.app/ENG-1'')])])])])\<rparr>"
        and self = "init ''key''"
        and resp = "\<lparr>status_code = 200,
            json_body = Some (JObj [(''data'',
              JObj [(''issueCreate'',
                JObj [(''success'', JBool True),
                      (''issue'', JObj [(''id'', JStr ''abc''),
                                        (''identifier'', JStr ''ENG-1''),
                                        (''title'', JStr ''Fix bug''),
                                        (''url'', JStr ''https://linear.app/ENG-1'')])])])])\<rparr>"
        and kvs = "[(''data'',
              JObj [(''issueCreate'',
                JObj [(''success'', JBool True),
                      (''issue'', JObj [(''id'', JStr ''abc''),
                                        (''identifier'', JStr ''ENG-1''),
                                        (''title'', JStr ''Fix bug''),
                                        (''url'', JStr ''https://linear.app/ENG-1'')])])])]"
        and data = "JObj [(''issueCreate'',
                JObj [(''success'', JBool True),
                      (''issue'', JObj [(''id'', JStr ''abc''),
                                        (''identifier'', JStr ''ENG-1''),
                                        (''title'', JStr ''Fix bug''),
                                        (''url'', JStr ''https://linear.app/ENG-1'')])])]"
        and payload = "JObj [(''success'', JBool True),
                      (''issue'', JObj [(''id'', JStr ''abc''),
                                        (''identifier'', JStr ''ENG-1''),
                                        (''title'', JStr ''Fix bug''),
                                        (''url'', JStr ''https://linear.app/ENG-1'')])]"
        and issue = "JObj [(''id'', JStr ''abc''),
                                        (''identifier'', JStr ''ENG-1''),
                                        (''title'', JStr ''Fix bug''),
                                        (''url'', JStr ''https://linear.app/ENG-1'')]"]
  by (simp add: stub_def raise_for_status_def)

section \<open>The entry point\<close>

text \<open>
  Claim C7. Run with at least one argument and with the credential variable unset or
  empty, \<^verbatim>\<open>main\<close> prints the message about the credential and exits with status 1; it
  has constructed no client and posted nothing.
\<close>

theorem missing_credential_exits:
  assumes "2 \<le> length argv"
    and "environ ''LINEAR_API_KEY'' = None \<or> environ ''LINEAR_API_KEY'' = Some []"
  shows "main post environ argv =
           (SystemExit 1, [Print [Lit ''Error: LINEAR_API_KEY environment variable not set'']])"
  using assms by (auto simp add: main_def)

theorem missing_credential_exits_witness:
  "main unreachable Map.empty [''linear_sync.py'', ''teams''] =
     (SystemExit 1, [Print [Lit ''Error: LINEAR_API_KEY environment variable not set'']])
   \<and> main unreachable [''LINEAR_API_KEY'' \<mapsto> []] [''linear_sync.py'', ''create'', ''T1'', ''Fix bug''] =
     (SystemExit 1, [Print [Lit ''Error: LINEAR_API_KEY environment variable not set'']])"
  using missing_credential_exits
      [where argv = "[''linear_sync.py'', ''teams'']" and environ = Map.empty
        and post = unreachable]
    missing_credential_exits
      [where argv = "[''linear_sync.py'', ''create'', ''T1'', ''Fix bug'']"
        and environ = "[''LINEAR_API_KEY'' \<mapsto> []]" and post = unreachable]
  by simp

text \<open>
  Claim C8, as amended. With no argument at all, \<^verbatim>\<open>main\<close> prints the general usage and
  exits with status 1. With the credential set: \<^verbatim>\<open>create\<close> with fewer than two further
  arguments prints the usage line of \<^verbatim>\<open>create\<close>, \<^verbatim>\<open>projects\<close> without a team id prints the
  usage line of \<^verbatim>\<open>projects\<close>, and a command that is none of the three prints
  \<^verbatim>\<open>Unknown command: \<close> and the command; each exits with status 1. Nothing is posted in
  any of these runs.
\<close>

theorem bad_arguments_exit:
  "(length argv < 2 \<longrightarrow>
      main post environ argv =
        (SystemExit 1,
         [Print [Lit ''Usage: python linear_sync.py <command> [args]''],
          Print [Lit ''Commands:''],
          Print [Lit ''  teams - List all teams''],
          Print [Lit ''  projects <team_id> - List projects''],
          Print [Lit ''  create <team_id> <title> - Create issue'']]))
   \<and> (2 \<le> length argv \<and> environ ''LINEAR_API_KEY'' = Some key \<and> key \<noteq> [] \<longrightarrow>
        (argv ! 1 = ''create'' \<and> length argv < 4 \<longrightarrow>
           main post environ argv =
             (SystemExit 1,
              [Construct (init key),
               Print [Lit ''Usage: python linear_sync.py create <team_id> <title>'']]))
      \<and> (argv ! 1 = ''projects'' \<and> length argv < 3 \<longrightarrow>
           main post environ argv =
             (SystemExit 1,
              [Construct (init key),
               Print [Lit ''Usage: python linear_sync.py projects <team_id>'']]))
      \<and> (argv ! 1 \<noteq> ''teams'' \<and> argv ! 1 \<noteq> ''projects'' \<and> argv ! 1 \<noteq> ''create'' \<longrightarrow>
           main post environ argv =
             (SystemExit 1,
              [Construct (init key), Print [Lit ''Unknown command: '', Lit (argv ! 1)]])))"
  by (simp add: main_def Let_def)

theorem bad_arguments_exit_witness:
  "main unreachable Map.empty [''linear_sync.py''] =
     (SystemExit 1,
      [Print [Lit ''Usage: python linear_sync.py <command> [args]''],
       Print [Lit ''Commands:''],
       Print [Lit ''  teams - List all teams''],
       Print [Lit ''  projects <team_id> - List projects''],
       Print [Lit ''  create <team_id> <title> - Create issue'']])
   \<and> main unreachable [''LINEAR_API_KEY'' \<mapsto> ''key''] [''linear_sync.py'', ''create'', ''T1''] =
     (SystemExit 1,
      [Construct (init ''key''),
       Print [Lit ''Usage: python linear_sync.py create <team_id> <title>'']])
   \<and> main unreachable [''LINEAR_API_KEY'' \<mapsto> ''key''] [''linear_sync.py'', ''projects''] =
     (SystemExit 1,
      [Construct (init ''key''), Print [Lit ''Usage: python linear_sync.py projects <team_id>'']])
   \<and> main unreachable [''LINEAR_API_KEY'' \<mapsto> ''key''] [''linear_sync.py'', ''bogus''] =
     (SystemExit 1, [Construct (init ''key''), Print [Lit ''Unknown command: '', Lit ''bogus'']])"
  using bad_arguments_exit
      [where argv = "[''linear_sync.py'']" and post = unreachable and environ = Map.empty
        and key = "''key''"]
    bad_arguments_exit
      [where argv = "[''linear_sync.py'', ''create'', ''T1'']" and post = unreachable
        and environ = "[''LINEAR_API_KEY'' \<mapsto> ''key'']" and key = "''key''"]
    bad_arguments_exit
      [where argv = "[''linear_sync.py'', ''projects'']" and post = unreachable
        and environ = "[''LINEAR_API_KEY'' \<mapsto> ''key'']" and key = "''key''"]
    bad_arguments_exit
      [where argv = "[''linear_sync.py'', ''bogus'']" and post = unreachable
        and environ = "[''LINEAR_API_KEY'' \<mapsto> ''key'']" and key = "''key''"]
  by simp

text \<open>
  The claim as first stated fails twice. Without the credential, \<^verbatim>\<open>create\<close> with one
  further argument prints the message about the credential and no usage line; and with
  the credential, an unknown command prints \<^verbatim>\<open>Unknown command: bogus\<close> and no usage line.
\<close>

theorem create_without_credential_prints_no_usage:
  "main unreachable Map.empty [''linear_sync.py'', ''create'', ''T1''] =
     (SystemExit 1, [Print [Lit ''Error: LINEAR_API_KEY environment variable not set'']])
   \<and> \<not> list_ex is_usage (snd (main unreachable Map.empty [''linear_sync.py'', ''create'', ''T1'']))
   \<and> main unreachable [''LINEAR_API_KEY'' \<mapsto> ''key''] [''linear_sync.py'', ''bogus''] =
     (SystemExit 1, [Construct (init ''key''), Print [Lit ''Unknown command: '', Lit ''bogus'']])
   \<and> \<not> list_ex is_usage
         (snd (main unreachable [''LINEAR_API_KEY'' \<mapsto> ''key''] [''linear_sync.py'', ''bogus'']))"
  by (simp add: main_def Let_def)

end
